theory Spec2Isabelle
  imports Complex_Main "HOL-Library.AList" "HOL-Library.Multiset"
begin

section \<open>The stock exchange: data model\<close>

text \<open>
  The program is Python: \<^verbatim>\<open>stock_factory.py\<close> (the stock classes and the factory) and
  \<^verbatim>\<open>stock_market_ops.py\<close> (the operations and the market). Python numbers are modelled
  as exact reals, and the one float that is not a real number, \<^verbatim>\<open>float('inf')\<close>, is
  a constructor of its own. Floating point is modelled where a result depends on it: the
  range of doubles in the product of the index, and the rounding of every operation in
  the float reading of the volume-weighted price. A
  \<^verbatim>\<open>datetime\<close> is an integer count of microseconds, its resolution. The coroutines
  only yield at \<^verbatim>\<open>asyncio.sleep(0)\<close> before their bodies start, so each one is a
  function of the state it finds; a reading of \<^verbatim>\<open>datetime.now()\<close> is a parameter.
\<close>

text \<open>The exception classes the code raises, by itself or through the interpreter.\<close>

datatype exn = ValueError | TypeError | AttributeError

text \<open>
  What \<^verbatim>\<open>logging\<close> receives: the level of each record, in order (the formatted
  messages are left out).
\<close>

datatype log_level = INFO | WARNING | ERROR

type_synonym log = "log_level list"

text \<open>A float result: a real number, or \<^verbatim>\<open>float('inf')\<close>.\<close>

datatype pyfloat = Fin real | PosInf

text \<open>
  A trade is the tuple \<^verbatim>\<open>(timestamp, quantity, trade_type, price)\<close> that
  \<^verbatim>\<open>record_trade\<close> appends to the deque \<^verbatim>\<open>stock.trades\<close>.
\<close>

type_synonym trade = "int \<times> real \<times> string \<times> real"

text \<open>
  The two concrete subclasses of the abstract class \<^verbatim>\<open>Stock\<close>. The class of an object
  selects its \<^verbatim>\<open>calculate_dividend_yield\<close>; \<^verbatim>\<open>stock_type\<close> is a field beside it.
\<close>

datatype stock_class = CommonStock | PreferredStock

record stock =
  cls :: stock_class
  symbol :: string
  stock_type :: string
  last_dividend :: real
  fixed_dividend :: "real option"
  par_value :: real
  trades :: "trade list"

text \<open>
  An object that a caller can pass where the code expects a stock: a stock, or an instance
  of \<^verbatim>\<open>StockOps\<close>, whose \<^verbatim>\<open>__init__\<close> sets no attribute.
\<close>

datatype pyobj = StockObj stock | StockOpsObj

text \<open>
  The market's dictionary \<^verbatim>\<open>self.stocks\<close>, in insertion order: assigning to a key that
  is present replaces its value in place, a new key goes to the end
  (\<^const>\<open>AList.update\<close> does both).
\<close>

record market =
  stocks :: "(string \<times> stock) list"

section \<open>stock\_factory.py\<close>

text \<open>
  \<^verbatim>\<open>Stock.__init__\<close>, which both subclasses reach (\<^verbatim>\<open>PreferredStock.__init__\<close> calls
  it and assigns \<^verbatim>\<open>fixed_dividend\<close> once more). The ledger starts as an empty deque.
\<close>

definition Stock_init ::
  "stock_class \<Rightarrow> string \<Rightarrow> string \<Rightarrow> real \<Rightarrow> real \<Rightarrow> real option \<Rightarrow> stock" where
  "Stock_init c sy ty ld pv fd =
     \<lparr>cls = c, symbol = sy, stock_type = ty, last_dividend = ld,
      fixed_dividend = fd, par_value = pv, trades = []\<rparr>"

text \<open>
  \<^verbatim>\<open>StockFactory.create_stock\<close>. Its parameter \<^verbatim>\<open>fixed_dividend\<close> defaults to
  \<^verbatim>\<open>None\<close>, and the factory always passes it on, so an omitted argument and an
  explicit \<^verbatim>\<open>None\<close> are the same call: \<^term>\<open>None :: real option\<close> here.
\<close>

definition create_stock ::
  "string \<Rightarrow> string \<Rightarrow> real \<Rightarrow> real \<Rightarrow> real option \<Rightarrow> exn + stock" where
  "create_stock sy ty ld pv fd =
     (if ty = ''Common'' then Inr (Stock_init CommonStock sy ty ld pv fd)
      else if ty = ''Preferred'' then Inr (Stock_init PreferredStock sy ty ld pv fd)
      else Inl ValueError)"

text \<open>\<^verbatim>\<open>CommonStock.calculate_dividend_yield\<close>.\<close>

definition CommonStock_calculate_dividend_yield :: "stock \<Rightarrow> real \<Rightarrow> exn + real" where
  "CommonStock_calculate_dividend_yield self price =
     (if price > 0 then Inr (last_dividend self / price) else Inr 0)"

text \<open>
  \<^verbatim>\<open>PreferredStock.calculate_dividend_yield\<close>. With \<^verbatim>\<open>fixed_dividend\<close> being
  \<^verbatim>\<open>None\<close> the product \<^verbatim>\<open>None * par_value\<close> raises TypeError, which nothing catches.
\<close>

definition PreferredStock_calculate_dividend_yield :: "stock \<Rightarrow> real \<Rightarrow> exn + real" where
  "PreferredStock_calculate_dividend_yield self price =
     (if price > 0 then
        (case fixed_dividend self of
           None \<Rightarrow> Inl TypeError
         | Some f \<Rightarrow> Inr ((f * par_value self) / price))
      else Inr 0)"

text \<open>The call \<^verbatim>\<open>stock.calculate_dividend_yield(price)\<close>: dispatch on the class.\<close>

definition Stock_calculate_dividend_yield :: "stock \<Rightarrow> real \<Rightarrow> exn + real" where
  "Stock_calculate_dividend_yield self price =
     (case cls self of
        CommonStock \<Rightarrow> CommonStock_calculate_dividend_yield self price
      | PreferredStock \<Rightarrow> PreferredStock_calculate_dividend_yield self price)"

section \<open>stock\_market\_ops.py: StockOps\<close>

text \<open>
  Every method of \<^verbatim>\<open>StockOps\<close> wraps its body in \<^verbatim>\<open>try\<close> with
  \<^verbatim>\<open>except Exception\<close>: the handler logs at ERROR level and returns \<^verbatim>\<open>None\<close>
  (or falls off the end, which returns \<^verbatim>\<open>None\<close> too). A result is a pair: what the
  caller receives (\<^term>\<open>Inl e\<close> when an exception leaves the method, \<^term>\<open>Inr v\<close> when
  it returns, with \<^term>\<open>None\<close> for Python's \<^verbatim>\<open>None\<close>), and the log records.
\<close>

text \<open>
  \<^verbatim>\<open>StockOps.calculate_dividend_yield(self, price)\<close> reads the stock's fields from
  \<^verbatim>\<open>self\<close>. On an instance of \<^verbatim>\<open>StockOps\<close> each of them is missing
  (AttributeError); the handler formats \<^verbatim>\<open>self.symbol\<close> into its message before it
  logs, so there the AttributeError leaves the method.
\<close>

definition StockOps_calculate_dividend_yield ::
  "pyobj \<Rightarrow> real \<Rightarrow> (exn + real option) \<times> log" where
  "StockOps_calculate_dividend_yield self price =
     (let body =
        (if price \<le> 0 then Inl ValueError
         else
           (case self of
              StockOpsObj \<Rightarrow> Inl AttributeError
            | StockObj s \<Rightarrow>
                if stock_type s = ''Common'' then Inr (last_dividend s / price)
                else if stock_type s = ''Preferred'' \<and> fixed_dividend s \<noteq> None
                  then Inr ((the (fixed_dividend s) * par_value s) / price)
                else Inl ValueError))
      in
        (case body of
           Inr v \<Rightarrow> (Inr (Some v), [])
         | Inl e \<Rightarrow>
             (case self of
                StockOpsObj \<Rightarrow> (Inl AttributeError, [])
              | StockObj s \<Rightarrow> (Inr None, [ERROR]))))"

text \<open>
  \<^verbatim>\<open>StockOps.calculate_pe_ratio(self, price, stock)\<close>. The division is reached only
  with a non-zero divisor, so the body raises nothing.
\<close>

definition calculate_pe_ratio :: "real \<Rightarrow> stock \<Rightarrow> (exn + pyfloat option) \<times> log" where
  "calculate_pe_ratio price stock =
     (if last_dividend stock = 0 then (Inr (Some PosInf), [WARNING])
      else (Inr (Some (Fin (price / last_dividend stock))), []))"

text \<open>
  \<^verbatim>\<open>StockOps.record_trade(self, stock, quantity, trade_type, price)\<close>; \<open>now\<close> is what
  \<^verbatim>\<open>datetime.now()\<close> returns when the trade is stamped. The method has no
  \<^verbatim>\<open>return\<close>: the caller receives \<^verbatim>\<open>None\<close> on both paths. The deque is changed
  in place; here the stock comes back with the operation's result.
\<close>

definition record_trade ::
  "stock \<Rightarrow> real \<Rightarrow> string \<Rightarrow> real \<Rightarrow> int \<Rightarrow> (exn + unit) \<times> stock \<times> log" where
  "record_trade stock quantity trade_type price now =
     (let body =
        (if quantity \<le> 0 \<or> price \<le> 0 then Inl ValueError
         else if trade_type \<notin> set [''BUY'', ''SELL''] then Inl ValueError
         else Inr (stock\<lparr>trades := trades stock @ [(now, quantity, trade_type, price)]\<rparr>))
      in
        (case body of
           Inr stock' \<Rightarrow> (Inr (), stock', [INFO])
         | Inl e \<Rightarrow> (Inr (), stock, [ERROR])))"

text \<open>\<^verbatim>\<open>timedelta(minutes=5)\<close>, in microseconds.\<close>

definition five_minutes :: int where
  "five_minutes = 5 * 60 * 1000000"

text \<open>
  \<^verbatim>\<open>StockOps.calculate_volume_weighted_stock_price(self, stock)\<close>; \<open>now\<close> is its
  reading of \<^verbatim>\<open>datetime.now()\<close>. The comprehension keeps the trades with
  \<^verbatim>\<open>ts >= past_five_minutes\<close> and nothing else is tested. The division is guarded
  by \<^verbatim>\<open>if total_qty else 0\<close>, so the body raises nothing.
\<close>

definition calculate_volume_weighted_stock_price ::
  "stock \<Rightarrow> int \<Rightarrow> (exn + real option) \<times> log" where
  "calculate_volume_weighted_stock_price stock now =
     (let past_five_minutes = now - five_minutes;
          relevant_trades =
            map (\<lambda>(ts, qty, ty, price). (qty, price))
              (filter (\<lambda>(ts, qty, ty, price). ts \<ge> past_five_minutes) (trades stock))
      in
        if relevant_trades = [] then (Inr (Some 0), [WARNING])
        else
          (let total_price_qty = sum_list (map (\<lambda>(qty, price). qty * price) relevant_trades);
               total_qty = sum_list (map (\<lambda>(qty, price). qty) relevant_trades)
           in (Inr (Some (if total_qty \<noteq> 0 then total_price_qty / total_qty else 0)), [])))"

section \<open>Floating point\<close>








text \<open>
  The range of doubles, for a result that is not negative: from
  \<open>2\<^sup>1\<^sup>0\<^sup>2\<^sup>4 - 2\<^sup>9\<^sup>7\<^sup>0\<close> on a result rounds to infinity, and up to \<open>2\<^sup>-\<^sup>1\<^sup>0\<^sup>7\<^sup>5\<close> it rounds
  to zero. Rounding inside the range is left out here.
\<close>

definition float_range :: "real \<Rightarrow> pyfloat" where
  "float_range r =
     (if 2 ^ 1024 - 2 ^ 970 \<le> r then PosInf
      else if r \<le> 1 / 2 ^ 1075 then Fin 0
      else Fin r)"

text \<open>
  One step of \<^verbatim>\<open>math.prod\<close>: the running product times the next price, a positive
  float. Infinity times a positive float is infinity.
\<close>

fun float_times :: "pyfloat \<Rightarrow> real \<Rightarrow> pyfloat" where
  "float_times PosInf p = PosInf"
| "float_times (Fin a) p = float_range (a * p)"

text \<open>\<^verbatim>\<open>math.prod(prices)\<close>: the product from the left, starting at 1.\<close>

definition math_prod :: "real list \<Rightarrow> pyfloat" where
  "math_prod prices = foldl float_times (Fin 1) prices"

text \<open>
  \<^verbatim>\<open>product ** e\<close> for a positive exponent \<open>e\<close> that is at most 1: infinity stays
  infinity, zero stays zero, and a power of a double in the range is in the range.
\<close>

fun float_pow :: "pyfloat \<Rightarrow> real \<Rightarrow> pyfloat" where
  "float_pow PosInf e = PosInf"
| "float_pow (Fin a) e = Fin (a powr e)"

section \<open>stock\_market\_ops.py: StockMarket\<close>

text \<open>
  \<^verbatim>\<open>StockMarket.add_stock(self, stock)\<close>. An object that is no \<^verbatim>\<open>Stock\<close> raises
  TypeError inside the \<^verbatim>\<open>try\<close>; the handler logs it. The dictionary is changed in
  place; here the market comes back with the operation's result.
\<close>

definition add_stock :: "market \<Rightarrow> pyobj \<Rightarrow> (exn + unit) \<times> market \<times> log" where
  "add_stock self obj =
     (let body =
        (case obj of
           StockOpsObj \<Rightarrow> Inl TypeError
         | StockObj s \<Rightarrow> Inr (self\<lparr>stocks := AList.update (symbol s) s (stocks self)\<rparr>))
      in
        (case body of
           Inr self' \<Rightarrow> (Inr (), self', [INFO])
         | Inl e \<Rightarrow> (Inr (), self, [ERROR])))"

text \<open>
  \<^verbatim>\<open>asyncio.gather\<close> with its default \<^verbatim>\<open>return_exceptions=False\<close>: the list of the
  results in the order of the arguments, or the first exception.
\<close>

fun gather :: "(exn + 'a) list \<Rightarrow> exn + 'a list" where
  "gather [] = Inr []"
| "gather (Inl e # rs) = Inl e"
| "gather (Inr v # rs) = (case gather rs of Inl e \<Rightarrow> Inl e | Inr vs \<Rightarrow> Inr (v # vs))"

text \<open>
  The filter \<^verbatim>\<open>[p for p in prices if p and p > 0]\<close>: \<^verbatim>\<open>None\<close> and zero are falsy, and
  what is left must be positive.
\<close>

definition valid_prices :: "real option list \<Rightarrow> real list" where
  "valid_prices prices =
     List.map_filter
       (\<lambda>p. case p of None \<Rightarrow> None | Some v \<Rightarrow> if v \<noteq> 0 \<and> v > 0 then Some v else None)
       prices"

text \<open>
  \<^verbatim>\<open>StockMarket.get_all_share_index(self)\<close>. Each gathered coroutine reads the clock
  for itself: \<open>clock i\<close> is the reading of the one for the \<open>i\<close>-th stock of the
  dictionary. The product is \<^verbatim>\<open>math.prod(prices)\<close>, which can leave the range of
  doubles, and the result is \<^verbatim>\<open>product ** (1 / len(prices))\<close>.
\<close>

definition get_all_share_index :: "market \<Rightarrow> (nat \<Rightarrow> int) \<Rightarrow> (exn + pyfloat option) \<times> log" where
  "get_all_share_index self clock =
     (let results =
            map (\<lambda>(i, stock). calculate_volume_weighted_stock_price stock (clock i))
              (enumerate 0 (map snd (stocks self)));
          lg = concat (map snd results)
      in
        (case gather (map fst results) of
           Inl e \<Rightarrow> (Inr None, lg @ [ERROR])
         | Inr gathered \<Rightarrow>
             (let prices = valid_prices gathered in
                if prices = [] then (Inr (Some (Fin 0)), lg @ [WARNING])
                else
                  (let product = math_prod prices
                   in (Inr (Some (float_pow product (1 / real (length prices)))), lg)))))"

section \<open>Callers and sample data\<close>

text \<open>
  A caller that records trades one after the other, as \<^verbatim>\<open>main\<close> does: each request
  is \<^verbatim>\<open>(quantity, trade_type, price)\<close> with the reading of the clock at that call.
\<close>

fun record_trades :: "stock \<Rightarrow> (real \<times> string \<times> real \<times> int) list \<Rightarrow> stock" where
  "record_trades stock [] = stock"
| "record_trades stock ((quantity, trade_type, price, now) # rest) =
     record_trades (fst (snd (record_trade stock quantity trade_type price now))) rest"

text \<open>Three of the stocks that \<^verbatim>\<open>main\<close> creates through the factory.\<close>

definition TEA :: stock where
  "TEA = Stock_init CommonStock ''TEA'' ''Common'' 0 100 None"

definition POP :: stock where
  "POP = Stock_init CommonStock ''POP'' ''Common'' 8 100 None"

definition GIN :: stock where
  "GIN = Stock_init PreferredStock ''GIN'' ''Preferred'' 8 100 (Some (2 / 100))"

text \<open>
  The trades that \<^verbatim>\<open>main\<close> records, with clock readings of 700 s and 900 s (in
  microseconds), and a market that holds the three stocks.
\<close>

definition POP_traded :: stock where
  "POP_traded = record_trades POP [(200, ''BUY'', 150, 700000000), (50, ''SELL'', 125, 900000000)]"

definition GIN_traded :: stock where
  "GIN_traded = record_trades GIN [(200, ''BUY'', 150, 900000000)]"

definition GBCE :: market where
  "GBCE = \<lparr>stocks = [(''TEA'', TEA), (''POP'', POP_traded), (''GIN'', GIN_traded)]\<rparr>"

text \<open>
  A market of \<open>n\<close> stocks, with the symbols S, SS, SSS and so on: each has one trade,
  of quantity 1 at the same price, recorded at 900 s.
\<close>

definition listed :: "real \<Rightarrow> nat \<Rightarrow> stock" where
  "listed price i =
     record_trades (Stock_init CommonStock (replicate (Suc i) CHR ''S'') ''Common'' 0 100 None)
       [(1, ''BUY'', price, 900000000)]"

definition uniform_market :: "nat \<Rightarrow> real \<Rightarrow> market" where
  "uniform_market n price =
     \<lparr>stocks = map (\<lambda>i. (symbol (listed price i), listed price i)) [0..<n]\<rparr>"

section \<open>The specification's volume-weighted price\<close>



section \<open>Auxiliary facts\<close>


lemma prod_list_pos:
  fixes xs :: "real list"
  shows "(\<And>x. x \<in> set xs \<Longrightarrow> 0 < x) \<Longrightarrow> 0 < prod_list xs"
  by (induction xs) simp_all

text \<open>The volume-weighted price with the two comprehensions merged into one selection.\<close>

lemma vwsp_unfold:
  "calculate_volume_weighted_stock_price stock now =
     (let sel = filter (\<lambda>(ts, qty, ty, price). now - five_minutes \<le> ts) (trades stock) in
        if sel = [] then (Inr (Some 0), [WARNING])
        else (Inr (Some (if sum_list (map (\<lambda>(ts, qty, ty, price). qty) sel) \<noteq> 0
                then sum_list (map (\<lambda>(ts, qty, ty, price). qty * price) sel)
                       / sum_list (map (\<lambda>(ts, qty, ty, price). qty) sel)
                else 0)), []))"
  by (simp add: calculate_volume_weighted_stock_price_def Let_def comp_def split_def)

lemma vwsp_returns_number:
  "\<exists>v. fst (calculate_volume_weighted_stock_price stock now) = Inr (Some v)"
  by (simp add: vwsp_unfold Let_def)


text \<open>
  Whatever is requested, a ledger filled through \<^const>\<open>record_trade\<close> holds positive
  quantities only, and no timestamp later than the latest clock reading.
\<close>

lemma record_trades_ledger:
  assumes "\<forall>(ts, qty, ty, price) \<in> set (trades stock). ts \<le> now \<and> 0 < qty"
    and "\<forall>(q, ty, p, t) \<in> set rs. t \<le> now"
  shows "\<forall>(ts, qty, ty, price) \<in> set (trades (record_trades stock rs)). ts \<le> now \<and> 0 < qty"
  using assms
proof (induction rs arbitrary: stock)
  case Nil
  then show ?case by simp
next
  case (Cons r rs)
  obtain q ty p t where r: "r = (q, ty, p, t)" by (cases r) auto
  let ?next = "fst (snd (record_trade stock q ty p t))"
  have "t \<le> now" using Cons.prems(2) r by simp
  with Cons.prems(1)
  have "\<forall>(ts, qty, ty, price) \<in> set (trades ?next). ts \<le> now \<and> 0 < qty"
    by (auto simp add: record_trade_def not_le)
  moreover have "\<forall>(q, ty, p, t) \<in> set rs. t \<le> now" using Cons.prems(2) by simp
  ultimately have "\<forall>(ts, qty, ty, price) \<in> set (trades (record_trades ?next rs)).
      ts \<le> now \<and> 0 < qty"
    by (rule Cons.IH)
  then show ?case by (simp add: r)
qed


lemma gather_all_returned: "gather (map (\<lambda>v. Inr (f v)) xs) = Inr (map f xs)"
  by (induction xs) simp_all

lemma valid_prices_Some: "valid_prices (map Some vs) = filter (\<lambda>v. 0 < v) vs"
  by (induction vs) (simp_all add: valid_prices_def List.map_filter_simps)











lemma foldl_float_times_PosInf: "foldl float_times PosInf ps = PosInf"
  by (induction ps) simp_all

lemma foldl_float_times_replicate:
  assumes "1 \<le> a" and "a < 2 ^ 1024 - 2 ^ 970" and "1 \<le> x"
  shows "foldl float_times (Fin a) (replicate n x)
       = (if 2 ^ 1024 - 2 ^ 970 \<le> a * x ^ n then PosInf else Fin (a * x ^ n))"
  using assms(1,2)
proof (induction n arbitrary: a)
  case 0
  then show ?case by simp
next
  case (Suc n)
  have "1 * 1 \<le> a * x"
    by (rule mult_mono) (use Suc.prems assms(3) in auto)
  then have ax: "1 \<le> a * x" by simp
  have pw: "1 \<le> x ^ n" using assms(3) by simp
  show ?case
  proof (cases "2 ^ 1024 - 2 ^ 970 \<le> a * x")
    case True
    have "a * x \<le> a * x * x ^ n"
      using ax pw by (simp add: mult_le_cancel_left1)
    with True have "2 ^ 1024 - 2 ^ 970 \<le> a * x ^ Suc n" by (simp add: mult.assoc)
    with True show ?thesis
      by (simp add: float_range_def foldl_float_times_PosInf)
  next
    case False
    have "\<not> a * x \<le> 1 / 2 ^ 1075"
    proof -
      have "(1 / 2 ^ 1075 :: real) < 1" by simp
      with ax show ?thesis by linarith
    qed
    with False have "float_times (Fin a) x = Fin (a * x)"
      by (simp add: float_range_def)
    then show ?thesis
      using Suc.IH [OF ax] False by (simp add: mult.assoc)
  qed
qed

lemma foldl_float_times_zero: "foldl float_times (Fin 0) ps = Fin 0"
  by (induction ps) (simp_all add: float_range_def)

lemma foldl_float_times_replicate_small:
  assumes "0 < a" and "a \<le> 1" and "1 / 2 ^ 1075 < a" and "0 < x" and "x \<le> 1"
  shows "foldl float_times (Fin a) (replicate n x)
       = (if a * x ^ n \<le> 1 / 2 ^ 1075 then Fin 0 else Fin (a * x ^ n))"
  using assms(1,2,3)
proof (induction n arbitrary: a)
  case 0
  then show ?case by simp
next
  case (Suc n)
  have ax0: "0 < a * x" using Suc.prems(1) assms(4) by simp
  have "a * x \<le> 1 * 1"
    by (rule mult_mono) (use Suc.prems assms(4,5) in auto)
  then have ax1: "a * x \<le> 1" by simp
  have pw: "x ^ n \<le> 1" using assms(4,5) by (simp add: power_le_one)
  have big: "\<not> 2 ^ 1024 - 2 ^ 970 \<le> a * x"
  proof -
    have "(1 :: real) < 2 ^ 1024 - 2 ^ 970" by simp
    with ax1 show ?thesis by linarith
  qed
  show ?case
  proof (cases "a * x \<le> 1 / 2 ^ 1075")
    case True
    have "a * x * x ^ n \<le> a * x * 1"
      by (rule mult_left_mono) (use pw ax0 in auto)
    with True have "a * x ^ Suc n \<le> 1 / 2 ^ 1075" by (simp add: mult.assoc)
    with True big show ?thesis
      by (simp add: float_range_def foldl_float_times_zero)
  next
    case False
    with big have "float_times (Fin a) x = Fin (a * x)"
      by (simp add: float_range_def)
    then show ?thesis
      using Suc.IH [OF ax0 ax1] False by (simp add: mult.assoc)
  qed
qed

lemma vwsp_listed:
  assumes "0 < price"
  shows "calculate_volume_weighted_stock_price (listed price i) 1000000000
       = (Inr (Some price), [])"
  using assms
  by (simp add: listed_def record_trade_def Stock_init_def vwsp_unfold five_minutes_def)

lemma map_enumerate_snd: "map (\<lambda>(i, x). f x) (enumerate n xs) = map f xs"
  by (induction xs arbitrary: n) simp_all

text \<open>
  In a market of \<open>n\<close> stocks at the same positive price the index is the product of \<open>n\<close>
  copies of the price, raised to the power \<open>1 / n\<close>.
\<close>

lemma uniform_market_index:
  assumes "0 < price" and "0 < n"
  shows "map (\<lambda>(i, stock). fst (calculate_volume_weighted_stock_price stock 1000000000))
        (enumerate 0 (map snd (stocks (uniform_market n price))))
           = replicate n (Inr (Some price))"
    and "fst (get_all_share_index (uniform_market n price) (\<lambda>i. 1000000000))
           = Inr (Some (float_pow (math_prod (replicate n price)) (1 / real n)))"
proof -
  have results: "map (\<lambda>(i, stock). calculate_volume_weighted_stock_price stock 1000000000)
      (enumerate 0 (map snd (stocks (uniform_market n price))))
        = replicate n (Inr (Some price), [])"
    using assms(1)
    by (simp add: map_enumerate_snd uniform_market_def comp_def vwsp_listed map_replicate_const)
  show "map (\<lambda>(i, stock). fst (calculate_volume_weighted_stock_price stock 1000000000))
        (enumerate 0 (map snd (stocks (uniform_market n price))))
           = replicate n (Inr (Some price))"
    using assms(1)
    by (simp add: map_enumerate_snd uniform_market_def comp_def vwsp_listed map_replicate_const)
  have gathered: "gather (replicate n (Inr (Some price) :: exn + real option))
      = Inr (replicate n (Some price))"
    using gather_all_returned [of Some "replicate n price"] by simp
  have prices: "valid_prices (replicate n (Some price)) = replicate n price"
    using valid_prices_Some [of "replicate n price"] assms(1) by simp
  show "fst (get_all_share_index (uniform_market n price) (\<lambda>i. 1000000000))
           = Inr (Some (float_pow (math_prod (replicate n price)) (1 / real n)))"
    unfolding get_all_share_index_def Let_def results
    using assms(2) by (simp add: gathered prices)
qed

lemma foldl_float_times_in_range:
  assumes "\<And>k. 0 < k \<Longrightarrow> k \<le> length ps \<Longrightarrow>
      1 / 2 ^ 1075 < a * prod_list (take k ps) \<and> a * prod_list (take k ps) < 2 ^ 1024 - 2 ^ 970"
  shows "foldl float_times (Fin a) ps = Fin (a * prod_list ps)"
  using assms
proof (induction ps arbitrary: a)
  case Nil
  then show ?case by simp
next
  case (Cons p ps)
  from Cons.prems [of 1]
  have "1 / 2 ^ 1075 < a * p \<and> a * p < 2 ^ 1024 - 2 ^ 970" by simp
  then have step: "float_times (Fin a) p = Fin (a * p)"
    by (simp add: float_range_def)
  have "foldl float_times (Fin (a * p)) ps = Fin (a * p * prod_list ps)"
  proof (rule Cons.IH)
    fix k assume "0 < k" and "k \<le> length ps"
    with Cons.prems [of "Suc k"]
    show "1 / 2 ^ 1075 < a * p * prod_list (take k ps)
        \<and> a * p * prod_list (take k ps) < 2 ^ 1024 - 2 ^ 970"
      by (simp add: mult.assoc)
  qed
  with step show ?case by (simp add: mult.assoc)
qed

lemma trades_POP_traded:
  "trades POP_traded = [(700000000, 200, ''BUY'', 150), (900000000, 50, ''SELL'', 125)]"
  by (simp add: POP_traded_def POP_def Stock_init_def record_trade_def)

lemma trades_GIN_traded: "trades GIN_traded = [(900000000, 200, ''BUY'', 150)]"
  by (simp add: GIN_traded_def GIN_def Stock_init_def record_trade_def)


text \<open>
  On an instance of \<^verbatim>\<open>StockOps\<close> itself the method for the dividend yield has no
  field to read: whatever the price, an AttributeError leaves it.
\<close>

lemma StockOps_receiver_raises:
  "StockOps_calculate_dividend_yield StockOpsObj price = (Inl AttributeError, [])"
  by (simp add: StockOps_calculate_dividend_yield_def)

section \<open>Dividend yield\<close>

text \<open>
  C1. For every price above zero, the dividend yield of a Common stock is its last
  dividend divided by the price, and that of a Preferred stock whose fixed dividend is
  present is the fixed dividend times the par value, divided by the price. This holds for
  the stock's own method, selected by the class of the stock, and for the method of
  \<^verbatim>\<open>StockOps\<close> with the stock as its receiver, selected by the field
  \<^verbatim>\<open>stock_type\<close>.
\<close>

theorem dividend_yield_positive_price:
  assumes "0 < price"
  shows "(cls s = CommonStock \<longrightarrow>
            Stock_calculate_dividend_yield s price = Inr (last_dividend s / price))
       \<and> (cls s = PreferredStock \<and> fixed_dividend s = Some f \<longrightarrow>
            Stock_calculate_dividend_yield s price = Inr ((f * par_value s) / price))
       \<and> (stock_type s = ''Common'' \<longrightarrow>
            StockOps_calculate_dividend_yield (StockObj s) price
              = (Inr (Some (last_dividend s / price)), []))
       \<and> (stock_type s = ''Preferred'' \<and> fixed_dividend s = Some f \<longrightarrow>
            StockOps_calculate_dividend_yield (StockObj s) price
              = (Inr (Some ((f * par_value s) / price)), []))"
  using assms
  by (simp add: Stock_calculate_dividend_yield_def
      CommonStock_calculate_dividend_yield_def PreferredStock_calculate_dividend_yield_def
      StockOps_calculate_dividend_yield_def)

theorem dividend_yield_positive_price_witness:
  "(0::real) < 100
   \<and> create_stock ''POP'' ''Common'' 8 100 None = Inr POP
   \<and> create_stock ''GIN'' ''Preferred'' 8 100 (Some (2 / 100)) = Inr GIN
   \<and> Stock_calculate_dividend_yield POP 100 = Inr (8 / 100)
   \<and> StockOps_calculate_dividend_yield (StockObj POP) 100 = (Inr (Some (8 / 100)), [])
   \<and> Stock_calculate_dividend_yield GIN 100 = Inr (2 / 100)
   \<and> StockOps_calculate_dividend_yield (StockObj GIN) 100 = (Inr (Some (2 / 100)), [])"
  using dividend_yield_positive_price [of 100 POP]
    dividend_yield_positive_price [of 100 GIN "2 / 100"]
  by (simp add: create_stock_def POP_def GIN_def Stock_init_def)

text \<open>
  C4, as the specification states it: for every variant and every price that is not
  positive, the dividend yield fails with an error that reaches the caller. The code does
  not: for TEA at price 0 the stock's own method returns the number 0, and the method of
  \<^verbatim>\<open>StockOps\<close> returns \<^verbatim>\<open>None\<close> after logging.
\<close>

theorem dividend_yield_nonpositive_price_counterexample:
  "Stock_calculate_dividend_yield TEA 0 = Inr 0
   \<and> StockOps_calculate_dividend_yield (StockObj TEA) 0 = (Inr None, [ERROR])
   \<and> \<not> (\<exists>e. Stock_calculate_dividend_yield TEA 0 = Inl e)
   \<and> \<not> (\<exists>e. fst (StockOps_calculate_dividend_yield (StockObj TEA) 0) = Inl e)"
  by (simp add: Stock_calculate_dividend_yield_def CommonStock_calculate_dividend_yield_def
      StockOps_calculate_dividend_yield_def TEA_def Stock_init_def)

text \<open>
  C4, amended. For every stock, of either class, and every price that is not positive, no
  error reaches the caller: the stock's own method returns the number 0, and the method
  of \<^verbatim>\<open>StockOps\<close> with the stock as its receiver raises ValueError inside its
  \<^verbatim>\<open>try\<close>, logs it at ERROR level and returns \<^verbatim>\<open>None\<close>.
\<close>

theorem dividend_yield_nonpositive_price_returns:
  assumes "price \<le> 0"
  shows "Stock_calculate_dividend_yield s price = Inr 0
       \<and> StockOps_calculate_dividend_yield (StockObj s) price = (Inr None, [ERROR])"
  using assms
  by (cases "cls s")
    (simp_all add: Stock_calculate_dividend_yield_def CommonStock_calculate_dividend_yield_def
      PreferredStock_calculate_dividend_yield_def StockOps_calculate_dividend_yield_def)

theorem dividend_yield_nonpositive_price_returns_witness:
  "(- 1 :: real) \<le> 0
   \<and> Stock_calculate_dividend_yield GIN (- 1) = Inr 0
   \<and> StockOps_calculate_dividend_yield (StockObj GIN) (- 1) = (Inr None, [ERROR])"
  using dividend_yield_nonpositive_price_returns [of "- 1" GIN] by simp

section \<open>P/E ratio\<close>

text \<open>
  C5. For every price above zero, the P/E ratio of a stock whose last dividend is zero is
  the infinite float, returned to the caller (with a warning in the log), never an error.
\<close>

theorem pe_ratio_zero_dividend:
  assumes "0 < price" and "last_dividend s = 0"
  shows "calculate_pe_ratio price s = (Inr (Some PosInf), [WARNING])"
  using assms by (simp add: calculate_pe_ratio_def)

theorem pe_ratio_zero_dividend_witness:
  "(0::real) < 100 \<and> last_dividend TEA = 0
   \<and> calculate_pe_ratio 100 TEA = (Inr (Some PosInf), [WARNING])"
  using pe_ratio_zero_dividend [of 100 TEA] by (simp add: TEA_def Stock_init_def)

text \<open>
  C6. The specification: for every price that is not positive, the P/E ratio fails
  instead of returning a number. The code has no test of the price: for POP, whose last
  dividend is 8, at price -5 it returns the number -5/8 and logs nothing. The two other
  operations that take a price reject this one: the dividend yield of POP at -5 and a
  trade of POP at -5 both raise ValueError inside their \<^verbatim>\<open>try\<close>.
\<close>

theorem pe_ratio_negative_price_returns_number:
  "calculate_pe_ratio (- 5) POP = (Inr (Some (Fin (- 5 / 8))), [])
   \<and> \<not> (\<exists>e. fst (calculate_pe_ratio (- 5) POP) = Inl e)
   \<and> fst (calculate_pe_ratio (- 5) POP) \<noteq> Inr None
   \<and> StockOps_calculate_dividend_yield (StockObj POP) (- 5) = (Inr None, [ERROR])
   \<and> record_trade POP 1 ''BUY'' (- 5) 1000000000 = (Inr (), POP, [ERROR])"
  by (simp add: calculate_pe_ratio_def StockOps_calculate_dividend_yield_def record_trade_def
      POP_def Stock_init_def)

section \<open>Recording trades\<close>

text \<open>
  C7, as the specification states it: recording an invalid trade fails with an error that
  reaches the caller, and leaves the ledger as it was. The ledger is left as it was, but
  no error reaches the caller: with quantity 0, BUY and price 10 the call returns
  \<^verbatim>\<open>None\<close>, as the call for a valid trade does.
\<close>

theorem record_trade_invalid_counterexample:
  "record_trade POP 0 ''BUY'' 10 1000000000 = (Inr (), POP, [ERROR])
   \<and> \<not> (\<exists>e. fst (record_trade POP 0 ''BUY'' 10 1000000000) = Inl e)
   \<and> fst (record_trade POP 0 ''BUY'' 10 1000000000)
       = fst (record_trade POP 200 ''BUY'' 150 1000000000)"
  by (simp add: record_trade_def)

text \<open>
  C7, amended. Recording an invalid trade (a quantity or a price that is not positive, or
  a trade type other than BUY and SELL) raises ValueError inside the \<^verbatim>\<open>try\<close>; the
  handler logs it at ERROR level, the call returns \<^verbatim>\<open>None\<close> to the caller as a
  successful call does, and the stock is unchanged, so the ledger has the length it had.
\<close>

theorem record_trade_invalid_logged:
  assumes "quantity \<le> 0 \<or> price \<le> 0 \<or> trade_type \<notin> {''BUY'', ''SELL''}"
  shows "record_trade stock quantity trade_type price now = (Inr (), stock, [ERROR])
       \<and> length (trades (fst (snd (record_trade stock quantity trade_type price now))))
           = length (trades stock)"
  using assms by (auto simp add: record_trade_def)

theorem record_trade_invalid_logged_witness:
  "record_trade POP_traded 5 ''HOLD'' 10 1000000000 = (Inr (), POP_traded, [ERROR])
   \<and> length (trades (fst (snd (record_trade POP_traded 5 ''HOLD'' 10 1000000000)))) = 2"
  using record_trade_invalid_logged [of 5 10 "''HOLD''" POP_traded 1000000000]
  by (simp add: trades_POP_traded)

section \<open>Constructing stocks\<close>

text \<open>
  C8, as the specification states it: constructing a Preferred stock without a fixed
  dividend fails. Through the factory it does not: the call that creates GIN with
  \<^verbatim>\<open>fixed_dividend\<close> left out returns a stock.
\<close>

theorem create_preferred_without_fixed_dividend_counterexample:
  "create_stock ''GIN'' ''Preferred'' 8 100 None
     = Inr (GIN\<lparr>fixed_dividend := None\<rparr>)
   \<and> \<not> (\<exists>e. create_stock ''GIN'' ''Preferred'' 8 100 None = Inl e)"
  by (simp add: create_stock_def GIN_def Stock_init_def)

text \<open>
  C8, amended. Constructing a Preferred stock through the factory with the fixed dividend
  absent raises nothing: it returns a stock of class \<^verbatim>\<open>PreferredStock\<close> whose
  \<^verbatim>\<open>fixed_dividend\<close> is \<^verbatim>\<open>None\<close>, with the other fields as given and an empty ledger.
\<close>

theorem create_preferred_without_fixed_dividend:
  "create_stock sy ''Preferred'' d pv None
     = Inr \<lparr>cls = PreferredStock, symbol = sy, stock_type = ''Preferred'',
            last_dividend = d, fixed_dividend = None, par_value = pv, trades = []\<rparr>"
  by (simp add: create_stock_def Stock_init_def)

section \<open>Volume-weighted stock price\<close>







section \<open>The market\<close>

text \<open>
  As long as no running product of the prices kept leaves the range of doubles, the index
  is what the specification says: the volume-weighted price of every stock is gathered,
  each a number \<open>v\<close>, those with \<open>v \<le> 0\<close> are dropped, and the result is the \<open>n\<close>-th
  root of the product of the \<open>n\<close> values that are left, or 0 when none is left.
\<close>

lemma all_share_index_within_range:
  "\<exists>vs. map (\<lambda>(i, stock). fst (calculate_volume_weighted_stock_price stock (clock i)))
            (enumerate 0 (map snd (stocks m))) = map (\<lambda>v. Inr (Some v)) vs
       \<and> (let kept = filter (\<lambda>v. \<not> v \<le> 0) vs in
            (\<forall>k. 0 < k \<and> k \<le> length kept \<longrightarrow>
                1 / 2 ^ 1075 < prod_list (take k kept)
                \<and> prod_list (take k kept) < 2 ^ 1024 - 2 ^ 970)
            \<longrightarrow> fst (get_all_share_index m clock)
                  = Inr (Some (Fin (if kept = [] then 0
                                    else root (length kept) (prod_list kept)))))"
proof -
  define val where "val = (\<lambda>(i, stock).
    case fst (calculate_volume_weighted_stock_price stock (clock i)) of
      Inr (Some v) \<Rightarrow> v | _ \<Rightarrow> 0)"
  define es where "es = enumerate 0 (map snd (stocks m))"
  define vs where "vs = map val es"
  define kept where "kept = filter (\<lambda>v. 0 < v) vs"
  have each: "(case e of (i, stock) \<Rightarrow>
        fst (calculate_volume_weighted_stock_price stock (clock i))) = Inr (Some (val e))" for e
  proof (cases e)
    case (Pair i stock)
    obtain v where "fst (calculate_volume_weighted_stock_price stock (clock i)) = Inr (Some v)"
      using vwsp_returns_number by blast
    then show ?thesis by (simp add: Pair val_def)
  qed
  have results:
    "map (\<lambda>(i, stock). fst (calculate_volume_weighted_stock_price stock (clock i))) es
      = map (\<lambda>v. Inr (Some v)) vs"
    by (simp add: vs_def each)
  have fsts:
    "map fst (map (\<lambda>(i, stock). calculate_volume_weighted_stock_price stock (clock i)) es)
      = map (\<lambda>v. Inr (Some v)) vs"
    using results by (simp add: comp_def split_def)
  have gathered: "gather (map (\<lambda>v. Inr (Some v)) vs) = Inr (map Some vs)"
    by (rule gather_all_returned)
  have kept_eq: "filter (\<lambda>v. \<not> v \<le> 0) vs = kept"
    by (simp add: kept_def not_le)
  have index: "fst (get_all_share_index m clock)
      = Inr (Some (if kept = [] then Fin 0
                   else float_pow (math_prod kept) (1 / real (length kept))))"
    unfolding get_all_share_index_def es_def [symmetric] Let_def fsts gathered
    by (simp add: valid_prices_Some kept_def)
  have "fst (get_all_share_index m clock)
      = Inr (Some (Fin (if kept = [] then 0 else root (length kept) (prod_list kept))))"
    if range: "\<forall>k. 0 < k \<and> k \<le> length kept \<longrightarrow>
        1 / 2 ^ 1075 < prod_list (take k kept) \<and> prod_list (take k kept) < 2 ^ 1024 - 2 ^ 970"
  proof (cases "kept = []")
    case True
    with index show ?thesis by simp
  next
    case False
    have "math_prod kept = Fin (1 * prod_list kept)"
      unfolding math_prod_def
      by (rule foldl_float_times_in_range) (use range in simp)
    moreover have "0 < prod_list kept" by (rule prod_list_pos) (simp add: kept_def)
    moreover have "0 < length kept" using False by simp
    ultimately show ?thesis
      using index False by (simp add: root_powr_inverse)
  qed
  with results show ?thesis
    unfolding es_def kept_eq [symmetric] Let_def by blast
qed


text \<open>
  C3. The specification: the index is the geometric mean of the volume-weighted prices
  that are left after the filter. In a market of 103 stocks whose volume-weighted prices
  are all 1000, the geometric mean is 1000; the running product of the code reaches
  \<open>10\<^sup>3\<^sup>0\<^sup>9\<close>, beyond the largest double, and the index returned is infinity. In a
  market of 130 stocks at 0.003 the running product falls below the smallest double and
  the index returned is 0, the value that stands for no data.
\<close>

theorem all_share_index_overflow:
  "map (\<lambda>(i, stock). fst (calculate_volume_weighted_stock_price stock 1000000000))
      (enumerate 0 (map snd (stocks (uniform_market 103 1000))))
     = replicate 103 (Inr (Some 1000))
   \<and> root 103 (prod_list (replicate 103 1000)) = 1000
   \<and> fst (get_all_share_index (uniform_market 103 1000) (\<lambda>i. 1000000000)) = Inr (Some PosInf)
   \<and> map (\<lambda>(i, stock). fst (calculate_volume_weighted_stock_price stock 1000000000))
      (enumerate 0 (map snd (stocks (uniform_market 130 (3 / 1000)))))
     = replicate 130 (Inr (Some (3 / 1000)))
   \<and> root 130 (prod_list (replicate 130 (3 / 1000))) = 3 / 1000
   \<and> fst (get_all_share_index (uniform_market 130 (3 / 1000)) (\<lambda>i. 1000000000))
     = Inr (Some (Fin 0))"
proof -
  have over: "math_prod (replicate 103 1000) = PosInf"
    unfolding math_prod_def
    by (subst foldl_float_times_replicate) simp_all
  have small: "(3 / 1000) ^ 130 \<le> (1 / 2 ^ 1075 :: real)"
    by (simp add: power_divide field_simps)
  have under: "math_prod (replicate 130 (3 / 1000)) = Fin 0"
    unfolding math_prod_def
    by (subst foldl_float_times_replicate_small) (use small in simp_all)
  have "root 103 (1000 ^ 103) = (1000 :: real)"
    by (rule real_root_power_cancel) simp_all
  then have r1: "root 103 (prod_list (replicate 103 1000)) = (1000 :: real)"
    by (simp only: prod_list_replicate)
  have "root 130 ((3 / 1000) ^ 130) = (3 / 1000 :: real)"
    by (rule real_root_power_cancel) simp_all
  then have r2: "root 130 (prod_list (replicate 130 (3 / 1000))) = (3 / 1000 :: real)"
    by (simp only: prod_list_replicate)
  have i1: "fst (get_all_share_index (uniform_market 103 1000) (\<lambda>i. 1000000000))
      = Inr (Some PosInf)"
    using uniform_market_index(2) [of 1000 103] by (simp add: over)
  have i2: "fst (get_all_share_index (uniform_market 130 (3 / 1000)) (\<lambda>i. 1000000000))
      = Inr (Some (Fin 0))"
    using uniform_market_index(2) [of "3 / 1000" 130] by (simp add: under)
  show ?thesis
    using uniform_market_index(1) [of 1000 103] uniform_market_index(1) [of "3 / 1000" 130]
      r1 r2 i1 i2
    by simp
qed

text \<open>
  C10. Adding a stock whose symbol is a key of the market's dictionary raises nothing and
  logs at INFO level only. Afterwards the symbol maps to the new stock, and so to the new
  stock's ledger; the keys are the same as before, in the same order and without
  repetition; every other symbol maps to what it mapped to before.
\<close>

theorem add_stock_replaces:
  assumes "distinct (map fst (stocks m))" and "symbol s \<in> fst ` set (stocks m)"
  shows "\<exists>m'. add_stock m (StockObj s) = (Inr (), m', [INFO])
       \<and> map_of (stocks m') (symbol s) = Some s
       \<and> map fst (stocks m') = map fst (stocks m)
       \<and> distinct (map fst (stocks m'))
       \<and> (\<forall>k. k = symbol s \<or> map_of (stocks m') k = map_of (stocks m) k)"
  using assms
  by (simp add: add_stock_def update_conv' distinct_update update_keys)

text \<open>
  POP, with its two trades, is replaced in the market of the driver by a new stock of the
  same symbol with last dividend 9 and no trade.
\<close>

theorem add_stock_replaces_witness:
  "add_stock GBCE (StockObj (Stock_init CommonStock ''POP'' ''Common'' 9 100 None))
     = (Inr (),
        \<lparr>stocks = [(''TEA'', TEA),
                   (''POP'', Stock_init CommonStock ''POP'' ''Common'' 9 100 None),
                   (''GIN'', GIN_traded)]\<rparr>,
        [INFO])"
  using add_stock_replaces [of GBCE "Stock_init CommonStock ''POP'' ''Common'' 9 100 None"]
  by (auto simp add: GBCE_def add_stock_def Stock_init_def)

end
